theory Spec2Isabelle
  imports Complex_Main
begin

section \<open>JavaScript values used by the storefront\<close>

text \<open>
  Strings are lists of code units; the model keeps the code units below 256, which is
  where every literal of the program lives. A call that may raise returns an
  \<open>outcome\<close>: \<open>Throws\<close> for a raised exception or a rejected promise, \<open>Returns v\<close>
  for a normal return or a fulfilled promise.
\<close>

datatype 'a outcome = Throws | Returns 'a

text \<open>The truthiness of a string or of an optional string: \<open>null\<close>, \<open>undefined\<close> and
  the empty string are falsy.\<close>

definition truthy :: "string option \<Rightarrow> bool" where
  "truthy v = (case v of None \<Rightarrow> False | Some s \<Rightarrow> s \<noteq> [])"

text \<open>
  A time stamp of the backend is an ISO 8601 date and time, sent as a string that is
  never empty. The truthiness of a time stamp or null is that of the string it is.
\<close>

typedef time_stamp = "{s :: string. s \<noteq> []}"
  by (rule exI [of _ "''1970-01-01T00:00:00Z''"]) simp

definition time_truthy :: "time_stamp option \<Rightarrow> bool" where
  "time_truthy v = truthy (map_option Rep_time_stamp v)"

section \<open>Data model: the cart snapshot, orders and requests\<close>

text \<open>
  The fields of the backend's cart that the storefront reads. Optional fields are
  \<open>None\<close> when missing or null; \<open>completed_at\<close> is the time stamp the backend sets
  when the cart is completed. Quantities and prices are integers.
\<close>

record line_item =
  item_id :: string
  title :: "string option"
  quantity :: int
  unit_price :: int

record cart =
  cart_id :: string
  items :: "line_item list option"
  completed_at :: "time_stamp option"
  currency_code :: "string option"
  region_id :: "string option"

record order =
  order_id :: string

text \<open>The body of the cart update sent by the address step.\<close>

record shipping_address =
  first_name :: string
  last_name :: string
  address_1 :: string
  address_2 :: "string option"
  sa_city :: string
  postal_code :: string
  country_code :: string
  sa_phone :: "string option"

record cart_update =
  update_email :: string
  update_shipping_address :: shipping_address

section \<open>The browser and the cart store (lib/stores/cart)\<close>

text \<open>
  Everything an interaction handler can observe or produce: calls to the commerce
  backend, console output and invocations of the callbacks passed by the page.
\<close>

datatype effect =
    ConsoleWarn string
  | ConsoleError string
  | RemoveLineItem string string
  | GetCart string
  | UpdateLineItem string string int
  | AddShippingMethod string string
  | UpdateCart string cart_update
  | CompleteCart string
  | OnComplete
  | OnCompleteOrder "order option"

text \<open>
  The state of the page: whether \<open>window\<close> is defined, whether access to
  \<open>localStorage\<close> raises, the content of \<open>localStorage\<close>, the atoms \<open>$cart\<close>,
  \<open>$cartLoading\<close> and \<open>$cartAnnouncement\<close>, and the effects produced so far.
\<close>

record world =
  window_defined :: bool
  storage_blocked :: bool
  localStorage :: "string \<rightharpoonup> string"
  cart_atom :: "cart option"
  cartLoading :: bool
  cartAnnouncement :: "string option"
  effects :: "effect list"

definition emit :: "effect \<Rightarrow> world \<Rightarrow> world" where
  "emit e w = w\<lparr>effects := effects w @ [e]\<rparr>"

definition CART_ID_KEY :: string where
  "CART_ID_KEY = ''medusa_cart_id''"

definition localStorage_getItem :: "string \<Rightarrow> world \<Rightarrow> string option outcome" where
  "localStorage_getItem k w = (if storage_blocked w then Throws else Returns (localStorage w k))"

definition localStorage_setItem :: "string \<Rightarrow> string \<Rightarrow> world \<Rightarrow> world outcome" where
  "localStorage_setItem k v w =
     (if storage_blocked w then Throws else Returns (w\<lparr>localStorage := (localStorage w)(k \<mapsto> v)\<rparr>))"

definition localStorage_removeItem :: "string \<Rightarrow> world \<Rightarrow> world outcome" where
  "localStorage_removeItem k w =
     (if storage_blocked w then Throws else Returns (w\<lparr>localStorage := (localStorage w)(k := None)\<rparr>))"

definition isBrowser :: "world \<Rightarrow> bool" where
  "isBrowser w = window_defined w"

definition getStoredCartId :: "world \<Rightarrow> string option" where
  "getStoredCartId w =
     (if \<not> isBrowser w then None
      else case localStorage_getItem CART_ID_KEY w of Throws \<Rightarrow> None | Returns v \<Rightarrow> v)"

definition setStoredCartId :: "string \<Rightarrow> world \<Rightarrow> world" where
  "setStoredCartId cartId w =
     (if \<not> isBrowser w then w
      else case localStorage_setItem CART_ID_KEY cartId w of
             Throws \<Rightarrow> emit (ConsoleWarn ''Failed to save cart ID to localStorage'') w
           | Returns w' \<Rightarrow> w')"

definition removeStoredCartId :: "world \<Rightarrow> world" where
  "removeStoredCartId w =
     (if \<not> isBrowser w then w
      else case localStorage_removeItem CART_ID_KEY w of Throws \<Rightarrow> w | Returns w' \<Rightarrow> w')"

definition setCart :: "cart option \<Rightarrow> world \<Rightarrow> world" where
  "setCart c w =
     (let w1 = w\<lparr>cart_atom := c\<rparr>
      in case c of
           None \<Rightarrow> w1
         | Some c' \<Rightarrow> if cart_id c' \<noteq> [] then setStoredCartId (cart_id c') w1 else w1)"

definition clearCart :: "world \<Rightarrow> world" where
  "clearCart w = removeStoredCartId (w\<lparr>cart_atom := None\<rparr>)"

text \<open>\<open>$cartCount\<close>: \<open>reduce\<close> from 0 over the line items, 0 when \<open>cart?.items\<close> is
  missing. Quantities are integers.\<close>

definition cartCount :: "cart option \<Rightarrow> int" where
  "cartCount c =
     (case c of
        None \<Rightarrow> 0
      | Some c' \<Rightarrow>
          (case items c' of
             None \<Rightarrow> 0
           | Some its \<Rightarrow> foldl (\<lambda>total item. total + quantity item) 0 its))"

text \<open>
  \<open>initializeCart\<close>. The supplied \<open>fetchCart\<close> is asynchronous: it rejects
  (\<open>Throws\<close>), resolves to \<open>null\<close> (\<open>Returns None\<close>) or resolves to a response holding
  a cart. The result is the returned cart together with the page state.
\<close>

definition initializeCart :: "(string \<Rightarrow> cart option outcome) \<Rightarrow> world \<Rightarrow> cart option \<times> world" where
  "initializeCart fetchCart w =
     (case getStoredCartId w of
        None \<Rightarrow> (None, w)
      | Some storedCartId \<Rightarrow>
          if storedCartId = [] then (None, w)
          else
            let w1 = w\<lparr>cartLoading := True\<rparr>
            in (case fetchCart storedCartId of
                  Throws \<Rightarrow>
                    (None, (removeStoredCartId
                       (emit (ConsoleWarn ''Failed to load cart from storage:'') w1))\<lparr>cartLoading := False\<rparr>)
                | Returns None \<Rightarrow> (None, (removeStoredCartId w1)\<lparr>cartLoading := False\<rparr>)
                | Returns (Some c) \<Rightarrow>
                    if time_truthy (completed_at c)
                    then (None, (removeStoredCartId w1)\<lparr>cartLoading := False\<rparr>)
                    else (Some c, w1\<lparr>cart_atom := Some c, cartLoading := False\<rparr>)))"

section \<open>Payment step (PaymentForm)\<close>

text \<open>
  The component state of \<open>PaymentForm\<close> (its \<open>useState\<close> cells) and its handler
  \<open>handlePlaceOrder\<close>. The \<open>cart\<close> the handler reads is the snapshot of \<open>$cart\<close>;
  \<open>completeCart\<close> is the backend call, \<open>onComplete\<close> the optional callback of the
  page, which may itself raise.
\<close>

record payment_form =
  pf_isLoading :: bool
  pf_isProcessing :: bool
  pf_error :: "string option"
  pf_providers :: "string list"
  selectedProvider :: "string option"

record complete_response =
  response_type :: string
  response_order :: "order option"

definition place_order_failed :: "world \<times> payment_form \<Rightarrow> world \<times> payment_form" where
  "place_order_failed p =
     (case p of (w, st) \<Rightarrow>
        (emit (ConsoleError ''Error placing order:'') w,
         st\<lparr>pf_error := Some ''Failed to place order. Please try again.''\<rparr>))"

definition place_order_finally :: "world \<times> payment_form \<Rightarrow> world \<times> payment_form" where
  "place_order_finally p = (case p of (w, st) \<Rightarrow> (w, st\<lparr>pf_isProcessing := False\<rparr>))"

definition handlePlaceOrder ::
  "(order option \<Rightarrow> unit outcome) option \<Rightarrow> (string \<Rightarrow> complete_response outcome)
     \<Rightarrow> world \<times> payment_form \<Rightarrow> world \<times> payment_form" where
  "handlePlaceOrder onComplete completeCart p =
     (case p of (w, st) \<Rightarrow>
       (case cart_atom w of
          None \<Rightarrow> (w, st)
        | Some cart \<Rightarrow>
            if cart_id cart = [] \<or> \<not> truthy (selectedProvider st) then (w, st)
            else
              let st1 = st\<lparr>pf_isProcessing := True, pf_error := None\<rparr>;
                  w1 = emit (CompleteCart (cart_id cart)) w
              in place_order_finally
                (case completeCart (cart_id cart) of
                   Throws \<Rightarrow> place_order_failed (w1, st1)
                 | Returns response \<Rightarrow>
                     if response_type response = ''order'' then
                       (let w2 = setCart None w1
                        in case (if window_defined w2 then localStorage_removeItem ''cart_id'' w2
                                 else Returns w2) of
                             Throws \<Rightarrow> place_order_failed (w2, st1)
                           | Returns w3 \<Rightarrow>
                               (case onComplete of
                                  None \<Rightarrow> (w3, st1)
                                | Some callback \<Rightarrow>
                                    (let w4 = emit (OnCompleteOrder (response_order response)) w3
                                     in case callback (response_order response) of
                                          Throws \<Rightarrow> place_order_failed (w4, st1)
                                        | Returns u \<Rightarrow> (w4, st1))))
                     else (w1, st1\<lparr>pf_error := Some ''Payment incomplete. Please check details.''\<rparr>))))"

section \<open>Cart island (Cart): quantity changes\<close>

text \<open>Decimal rendering of an integer, as a template literal renders it: the digits
  are produced from the last one, in front of those already there.\<close>

definition digit :: "nat \<Rightarrow> char" where
  "digit d = ''0123456789'' ! d"

fun decimal :: "nat \<Rightarrow> string \<Rightarrow> string" where
  "decimal n later =
     (if n div 10 = 0 then digit (n mod 10) # later
      else decimal (n div 10) (digit (n mod 10) # later))"

definition number_toString :: "int \<Rightarrow> string" where
  "number_toString i = (if i < 0 then CHR ''-'' # decimal (nat (- i)) [] else decimal (nat i) [])"

record cart_island =
  updatingItems :: "string \<rightharpoonup> bool"
  ci_error :: "string option"

definition update_item_failed :: "world \<times> cart_island \<Rightarrow> world \<times> cart_island" where
  "update_item_failed p =
     (case p of (w, st) \<Rightarrow>
        (emit (ConsoleError ''Failed to update item'') w,
         st\<lparr>ci_error := Some ''Failed to update item. Please try again.''\<rparr>))"

definition update_item_finally :: "string \<Rightarrow> world \<times> cart_island \<Rightarrow> world \<times> cart_island" where
  "update_item_finally lineItemId p =
     (case p of (w, st) \<Rightarrow> (w, st\<lparr>updatingItems := (updatingItems st)(lineItemId := None)\<rparr>))"

definition handleUpdateQuantity ::
  "(string \<Rightarrow> string \<Rightarrow> unit outcome) \<Rightarrow> (string \<Rightarrow> cart outcome)
     \<Rightarrow> (string \<Rightarrow> string \<Rightarrow> int \<Rightarrow> cart outcome)
     \<Rightarrow> string \<Rightarrow> int \<Rightarrow> world \<times> cart_island \<Rightarrow> world \<times> cart_island" where
  "handleUpdateQuantity removeLineItem getCart updateLineItem lineItemId newQuantity p =
     (case p of (w, st) \<Rightarrow>
       (case cart_atom w of
          None \<Rightarrow> (w, st)
        | Some cart \<Rightarrow>
            if cart_id cart = [] then (w, st)
            else
              let item = (case items cart of
                            None \<Rightarrow> None
                          | Some its \<Rightarrow> find (\<lambda>i. item_id i = lineItemId) its);
                  itemTitle = (case item of
                                 None \<Rightarrow> ''Item''
                               | Some i \<Rightarrow> (case title i of
                                             None \<Rightarrow> ''Item''
                                           | Some t \<Rightarrow> if t \<noteq> [] then t else ''Item''));
                  st1 = st\<lparr>ci_error := None,
                           updatingItems := (updatingItems st)(lineItemId \<mapsto> True)\<rparr>
              in update_item_finally lineItemId
                (if newQuantity = 0 then
                   (let w1 = emit (RemoveLineItem (cart_id cart) lineItemId) w
                    in case removeLineItem (cart_id cart) lineItemId of
                         Throws \<Rightarrow> update_item_failed (w1, st1)
                       | Returns u \<Rightarrow>
                           (let w2 = emit (GetCart (cart_id cart)) w1
                            in case getCart (cart_id cart) of
                                 Throws \<Rightarrow> update_item_failed (w2, st1)
                               | Returns updatedCart \<Rightarrow>
                                   ((setCart (Some updatedCart) w2)
                                      \<lparr>cartAnnouncement := Some (''Removed '' @ itemTitle @ '' from cart'')\<rparr>,
                                    st1)))
                 else
                   (let w1 = emit (UpdateLineItem (cart_id cart) lineItemId newQuantity) w
                    in case updateLineItem (cart_id cart) lineItemId newQuantity of
                         Throws \<Rightarrow> update_item_failed (w1, st1)
                       | Returns updatedCart \<Rightarrow>
                           ((setCart (Some updatedCart) w1)
                              \<lparr>cartAnnouncement :=
                                 Some (''Updated quantity for '' @ itemTitle @ '' to ''
                                       @ number_toString newQuantity)\<rparr>,
                            st1)))))"

definition handleRemoveItem ::
  "(string \<Rightarrow> string \<Rightarrow> unit outcome) \<Rightarrow> (string \<Rightarrow> cart outcome)
     \<Rightarrow> (string \<Rightarrow> string \<Rightarrow> int \<Rightarrow> cart outcome)
     \<Rightarrow> string \<Rightarrow> world \<times> cart_island \<Rightarrow> world \<times> cart_island" where
  "handleRemoveItem removeLineItem getCart updateLineItem lineItemId p =
     handleUpdateQuantity removeLineItem getCart updateLineItem lineItemId 0 p"

section \<open>Shipping step (ShippingMethodSelector)\<close>

record shipping_selector =
  shippingOptions :: "string list"
  selectedOption :: "string option"
  sm_isLoading :: bool
  isSaving :: bool
  sm_error :: "string option"

definition select_option_failed :: "world \<times> shipping_selector \<Rightarrow> world \<times> shipping_selector" where
  "select_option_failed p =
     (case p of (w, st) \<Rightarrow>
        (emit (ConsoleError ''Error setting shipping method:'') w,
         st\<lparr>sm_error := Some ''Failed to set shipping method. Please try again.'',
            selectedOption := None\<rparr>))"

definition select_option_finally :: "world \<times> shipping_selector \<Rightarrow> world \<times> shipping_selector" where
  "select_option_finally p = (case p of (w, st) \<Rightarrow> (w, st\<lparr>isSaving := False\<rparr>))"

definition handleSelectOption ::
  "unit outcome option \<Rightarrow> (string \<Rightarrow> string \<Rightarrow> cart outcome) \<Rightarrow> string
     \<Rightarrow> world \<times> shipping_selector \<Rightarrow> world \<times> shipping_selector" where
  "handleSelectOption onComplete addShippingMethod optionId p =
     (case p of (w, st) \<Rightarrow>
       (case cart_atom w of
          None \<Rightarrow> (w, st)
        | Some cart \<Rightarrow>
            if cart_id cart = [] then (w, st)
            else
              let st1 = st\<lparr>selectedOption := Some optionId, isSaving := True, sm_error := None\<rparr>;
                  w1 = emit (AddShippingMethod (cart_id cart) optionId) w
              in select_option_finally
                (case addShippingMethod (cart_id cart) optionId of
                   Throws \<Rightarrow> select_option_failed (w1, st1)
                 | Returns updatedCart \<Rightarrow>
                     (let w2 = setCart (Some updatedCart) w1
                      in case onComplete of
                           None \<Rightarrow> (w2, st1)
                         | Some callback \<Rightarrow>
                             (let w3 = emit OnComplete w2
                              in case callback of
                                   Throws \<Rightarrow> select_option_failed (w3, st1)
                                 | Returns u \<Rightarrow> (w3, st1))))))"

section \<open>Strings: whitespace, trimming and the email pattern\<close>

text \<open>
  \<open>String.prototype.trim\<close> and the class \<open>\s\<close> of a regular expression use the same
  set of white space. Of its members, the code units below 256 are tab, line feed,
  vertical tab, form feed, carriage return, space and the no-break space.
\<close>

definition is_space :: "char \<Rightarrow> bool" where
  "is_space c = ((of_char c :: nat) \<in> {9, 10, 11, 12, 13, 32, 160})"

definition trim :: "string \<Rightarrow> string" where
  "trim s = rev (dropWhile is_space (rev (dropWhile is_space s)))"

text \<open>
  Regular expressions over character classes, matched against the whole string (the
  pattern of the form is anchored with \<open>^\<close> and \<open>$\<close>). \<open>after c r\<close> is what remains of
  \<open>r\<close> to be matched once the character \<open>c\<close> has been read.
\<close>

datatype regex =
    Nothing
  | Empty
  | Class "char \<Rightarrow> bool"
  | Either regex regex
  | Then regex regex
  | Many regex

fun accepts_empty :: "regex \<Rightarrow> bool" where
  "accepts_empty Nothing = False"
| "accepts_empty Empty = True"
| "accepts_empty (Class p) = False"
| "accepts_empty (Either r s) = (accepts_empty r \<or> accepts_empty s)"
| "accepts_empty (Then r s) = (accepts_empty r \<and> accepts_empty s)"
| "accepts_empty (Many r) = True"

fun after :: "char \<Rightarrow> regex \<Rightarrow> regex" where
  "after c Nothing = Nothing"
| "after c Empty = Nothing"
| "after c (Class p) = (if p c then Empty else Nothing)"
| "after c (Either r s) = Either (after c r) (after c s)"
| "after c (Then r s) =
     (if accepts_empty r then Either (Then (after c r) s) (after c s)
      else Then (after c r) s)"
| "after c (Many r) = Then (after c r) (Many r)"

fun regex_test :: "regex \<Rightarrow> string \<Rightarrow> bool" where
  "regex_test r [] = accepts_empty r"
| "regex_test r (c # cs) = regex_test (after c r) cs"

definition one_or_more :: "regex \<Rightarrow> regex" where
  "one_or_more r = Then r (Many r)"

text \<open>The class \<open>[^\s@]\<close> and the pattern \<open>/^[^\s@]+@[^\s@]+\.[^\s@]+$/\<close>.\<close>

definition not_space_or_at :: "char \<Rightarrow> bool" where
  "not_space_or_at c = (\<not> is_space c \<and> c \<noteq> CHR ''@'')"

definition email_pattern :: regex where
  "email_pattern =
     Then (one_or_more (Class not_space_or_at))
       (Then (Class (\<lambda>c. c = CHR ''@''))
          (Then (one_or_more (Class not_space_or_at))
             (Then (Class (\<lambda>c. c = CHR ''.''))
                (one_or_more (Class not_space_or_at)))))"

section \<open>Address step (CheckoutForm)\<close>

record FormData =
  email :: string
  firstName :: string
  lastName :: string
  address :: string
  apartment :: string
  city :: string
  postalCode :: string
  country :: string
  phone :: string

text \<open>
  \<open>FormErrors\<close> is an object from field names to messages: its properties in insertion
  order. Assigning a property replaces its value in place or adds it at the end.
\<close>

type_synonym FormErrors = "(string \<times> string) list"

fun assign :: "string \<Rightarrow> string \<Rightarrow> FormErrors \<Rightarrow> FormErrors" where
  "assign k v [] = [(k, v)]"
| "assign k v ((k', v') # ps) = (if k' = k then (k, v) # ps else (k', v') # assign k v ps)"

record checkout_form =
  formData :: FormData
  errors :: FormErrors
  cf_isLoading :: bool
  apiError :: "string option"
  isSubmitted :: bool
  isShippingSelected :: bool

text \<open>\<open>validateForm\<close> returns whether \<open>newErrors\<close> has no key, and sets \<open>errors\<close>.\<close>

definition validateForm :: "checkout_form \<Rightarrow> bool \<times> checkout_form" where
  "validateForm st =
     (let f = formData st;
          e0 = [];
          e1 = (if trim (email f) = [] then assign ''email'' ''Email is required'' e0
                else if \<not> regex_test email_pattern (email f)
                     then assign ''email'' ''Please enter a valid email'' e0
                     else e0);
          e2 = (if trim (firstName f) = [] then assign ''firstName'' ''First name is required'' e1 else e1);
          e3 = (if trim (lastName f) = [] then assign ''lastName'' ''Last name is required'' e2 else e2);
          e4 = (if trim (address f) = [] then assign ''address'' ''Address is required'' e3 else e3);
          e5 = (if trim (city f) = [] then assign ''city'' ''City is required'' e4 else e4);
          e6 = (if trim (postalCode f) = [] then assign ''postalCode'' ''Postal code is required'' e5 else e5);
          newErrors = (if trim (country f) = [] then assign ''country'' ''Country is required'' e6 else e6)
      in (length (map fst newErrors) = 0, st\<lparr>errors := newErrors\<rparr>))"

definition update_body :: "FormData \<Rightarrow> cart_update" where
  "update_body f =
     \<lparr>update_email = email f,
      update_shipping_address =
        \<lparr>first_name = firstName f,
         last_name = lastName f,
         address_1 = address f,
         address_2 = (if apartment f \<noteq> [] then Some (apartment f) else None),
         sa_city = city f,
         postal_code = postalCode f,
         country_code = country f,
         sa_phone = (if phone f \<noteq> [] then Some (phone f) else None)\<rparr>\<rparr>"

definition handleSubmit ::
  "(string \<Rightarrow> cart_update \<Rightarrow> cart outcome) \<Rightarrow> world \<times> checkout_form \<Rightarrow> world \<times> checkout_form" where
  "handleSubmit updateCart p =
     (case p of (w, st) \<Rightarrow>
       (case validateForm (st\<lparr>apiError := None\<rparr>) of (valid, st1) \<Rightarrow>
          if \<not> valid then (w, st1)
          else
            (case (case cart_atom w of None \<Rightarrow> None
                   | Some cart \<Rightarrow> if cart_id cart \<noteq> [] then Some cart else None) of
               None \<Rightarrow>
                 (w, st1\<lparr>apiError := Some ''No cart found. Please add items to your cart first.''\<rparr>)
             | Some cart \<Rightarrow>
                 (let st2 = st1\<lparr>cf_isLoading := True\<rparr>;
                      w1 = emit (UpdateCart (cart_id cart) (update_body (formData st))) w
                  in case (case updateCart (cart_id cart) (update_body (formData st)) of
                             Throws \<Rightarrow>
                               (emit (ConsoleError ''Error updating cart:'') w1,
                                st2\<lparr>apiError :=
                                  Some ''Failed to save shipping information. Please try again.''\<rparr>)
                           | Returns updatedCart \<Rightarrow>
                               (setCart (Some updatedCart) w1, st2\<lparr>isSubmitted := True\<rparr>)) of
                       (w2, st3) \<Rightarrow> (w2, st3\<lparr>cf_isLoading := False\<rparr>)))))"

section \<open>Price formatting (formatPrice)\<close>

text \<open>
  \<open>toUpperCase\<close> on the letters a to z; other characters of a currency code are left
  as they are. \<open>Intl.NumberFormat\<close> is the platform's: it is a parameter
  \<open>numberFormat currency value\<close>, which raises for a currency code it does not accept.
  Amounts are finite numbers, \<open>null\<close> and \<open>undefined\<close> are \<open>None\<close>; the quotient
  handed to the formatter is the exact one.
\<close>

definition toUpperCase :: "string \<Rightarrow> string" where
  "toUpperCase s =
     map (\<lambda>c. case map_of (zip ''abcdefghijklmnopqrstuvwxyz'' ''ABCDEFGHIJKLMNOPQRSTUVWXYZ'') c of
                None \<Rightarrow> c
              | Some upper \<Rightarrow> upper) s"

definition formatPrice ::
  "(string \<Rightarrow> rat \<Rightarrow> string outcome) \<Rightarrow> rat option \<Rightarrow> string option \<Rightarrow> string option outcome" where
  "formatPrice numberFormat amount currencyCode =
     (case amount of
        None \<Rightarrow> Returns None
      | Some a \<Rightarrow>
          (let currency = (case currencyCode of
                             None \<Rightarrow> ''USD''
                           | Some code \<Rightarrow> if toUpperCase code \<noteq> [] then toUpperCase code else ''USD'')
           in case numberFormat currency (a / 100) of
                Throws \<Rightarrow> Throws
              | Returns formatted \<Rightarrow> Returns (Some formatted)))"

section \<open>Search island (Search): the debounce effect\<close>

text \<open>
  The component state (\<open>query\<close>, \<open>results\<close>, \<open>isLoading\<close>, \<open>isOpen\<close>) and what the
  browser and the hooks keep for it. \<open>clock\<close> is the time in milliseconds. \<open>timers\<close>
  is the browser's table of pending timers in the order they were set: each one has its
  identifier, the time it is due and the \<open>query\<close> its callback closed over; a timer
  stays in the table until it runs or is cleared. \<open>next_timer\<close> is the identifier the
  next \<open>setTimeout\<close> returns. \<open>effect_timer\<close> is the \<open>timer\<close> constant of the effect
  that ran last, which the cleanup that effect returned will clear. \<open>issued\<close> lists the
  backend queries issued so far, each one a \<open>listProducts({ q, limit: 5 })\<close>.
\<close>

record search =
  query :: string
  results :: "string list"
  sr_isLoading :: bool
  sr_isOpen :: bool
  clock :: nat
  timers :: "(nat \<times> nat \<times> string) list"
  next_timer :: nat
  effect_timer :: "nat option"
  issued :: "string list"

text \<open>
  What happens to the island. \<open>Input v\<close> is an input event with the value \<open>v\<close>
  together with the render it causes and the commit of that render's effects; the time
  of the event is the time of that commit. \<open>Elapse d\<close> lets \<open>d\<close> milliseconds pass.
  \<open>TimerTask\<close> is the event loop taking up a timer.
\<close>

datatype search_event = Input string | Elapse nat | TimerTask

text \<open>\<open>setTimeout\<close> adds a timer to the table and returns its identifier;
  \<open>clearTimeout\<close> removes the timer with the given identifier, if it is still there.\<close>

definition setTimeout :: "string \<Rightarrow> nat \<Rightarrow> search \<Rightarrow> nat \<times> search" where
  "setTimeout q delay s =
     (next_timer s,
      s\<lparr>timers := timers s @ [(next_timer s, clock s + delay, q)],
        next_timer := Suc (next_timer s)\<rparr>)"

definition clearTimeout :: "nat \<Rightarrow> search \<Rightarrow> search" where
  "clearTimeout i s = s\<lparr>timers := filter (\<lambda>t. fst t \<noteq> i) (timers s)\<rparr>"

text \<open>The effect body: \<open>const timer = setTimeout(callback, 300)\<close>, with the query of
  this render in the callback.\<close>

definition debounce_effect :: "search \<Rightarrow> search" where
  "debounce_effect s =
     (case setTimeout (query s) 300 s of (timer, s') \<Rightarrow> s'\<lparr>effect_timer := Some timer\<rparr>)"

text \<open>The cleanup the effect returns: \<open>clearTimeout(timer)\<close>. Before the first effect
  has run there is no cleanup.\<close>

definition debounce_cleanup :: "search \<Rightarrow> search" where
  "debounce_cleanup s = (case effect_timer s of None \<Rightarrow> s | Some timer \<Rightarrow> clearTimeout timer s)"


text \<open>
  \<open>setQuery\<close> with the value the state already holds does not render again, so the
  effect, whose only dependency is \<open>query\<close>, is left alone. With another value the
  component renders, the cleanup of the previous effect runs and the effect runs again.
\<close>

definition setQuery :: "string \<Rightarrow> search \<Rightarrow> search" where
  "setQuery v s = (if v = query s then s else debounce_effect (debounce_cleanup (s\<lparr>query := v\<rparr>)))"

text \<open>The timer callback, for the query \<open>q\<close> it closed over and the answer of the backend.\<close>

definition timer_callback :: "(string \<Rightarrow> string list outcome) \<Rightarrow> string \<Rightarrow> search \<Rightarrow> search" where
  "timer_callback listProducts q s =
     (if length (trim q) > 0 then
        (let s1 = s\<lparr>sr_isLoading := True, issued := issued s @ [q]\<rparr>;
             s2 = (case listProducts q of
                     Returns products \<Rightarrow> s1\<lparr>results := products, sr_isOpen := True\<rparr>
                   | Throws \<Rightarrow> s1\<lparr>results := []\<rparr>)
         in s2\<lparr>sr_isLoading := False\<rparr>)
      else s\<lparr>results := [], sr_isOpen := False\<rparr>)"

text \<open>
  The event loop runs a timer no earlier than it is due: it takes the first timer of the
  table that is due, removes it from the table and runs its callback. All timers of the
  island have the same delay, so the first one set is the first one due.
\<close>

fun search_step :: "(string \<Rightarrow> string list outcome) \<Rightarrow> search \<Rightarrow> search_event \<Rightarrow> search" where
  "search_step listProducts s (Input v) = setQuery v s"
| "search_step listProducts s (Elapse d) = s\<lparr>clock := clock s + d\<rparr>"
| "search_step listProducts s TimerTask =
     (case find (\<lambda>t. fst (snd t) \<le> clock s) (timers s) of
        None \<Rightarrow> s
      | Some (i, due, q) \<Rightarrow>
          timer_callback listProducts q (s\<lparr>timers := filter (\<lambda>t. fst t \<noteq> i) (timers s)\<rparr>))"

definition search_run :: "(string \<Rightarrow> string list outcome) \<Rightarrow> search \<Rightarrow> search_event list \<Rightarrow> search" where
  "search_run listProducts s evs = foldl (search_step listProducts) s evs"



section \<open>Auxiliary notions for the proofs\<close>

text \<open>A syntactic reason why every string a pattern matches contains the character
  \<open>@\<close>: some member of each sequence is a class that holds nothing else.\<close>

fun forces_at :: "regex \<Rightarrow> bool" where
  "forces_at Nothing = True"
| "forces_at Empty = False"
| "forces_at (Class p) = (\<forall>c. p c \<longrightarrow> c = CHR ''@'')"
| "forces_at (Either r s) = (forces_at r \<and> forces_at s)"
| "forces_at (Then r s) = (forces_at r \<or> forces_at s)"
| "forces_at (Many r) = False"


section \<open>Concrete page states used to run the definitions\<close>

definition cart_01 :: cart where
  "cart_01 = \<lparr>cart_id = ''cart_01'',
      items = Some [\<lparr>item_id = ''item_a'', title = Some ''Shirt'', quantity = 2, unit_price = 1500\<rparr>,
                    \<lparr>item_id = ''item_b'', title = None, quantity = 1, unit_price = 900\<rparr>],
      completed_at = None, currency_code = Some ''usd'', region_id = Some ''reg_1''\<rparr>"

definition page_01 :: world where
  "page_01 = \<lparr>window_defined = True, storage_blocked = False,
      localStorage = [CART_ID_KEY \<mapsto> ''cart_01''],
      cart_atom = None, cartLoading = False, cartAnnouncement = None, effects = []\<rparr>"

definition page_02 :: world where
  "page_02 = page_01\<lparr>cart_atom := Some cart_01\<rparr>"

definition payment_01 :: payment_form where
  "payment_01 = \<lparr>pf_isLoading = False, pf_isProcessing = False, pf_error = None,
      pf_providers = [''pp_system_default''], selectedProvider = Some ''pp_system_default''\<rparr>"

definition order_response_01 :: complete_response where
  "order_response_01 = \<lparr>response_type = ''order'', response_order = Some \<lparr>order_id = ''order_01''\<rparr>\<rparr>"

definition island_01 :: cart_island where
  "island_01 = \<lparr>updatingItems = Map.empty, ci_error = None\<rparr>"

definition selector_01 :: shipping_selector where
  "selector_01 = \<lparr>shippingOptions = [''so_standard'', ''so_express''], selectedOption = None,
      sm_isLoading = False, isSaving = False, sm_error = None\<rparr>"

definition form_01 :: FormData where
  "form_01 = \<lparr>email = ''ada@shop.io'', firstName = ''Ada'', lastName = ''Lovelace'',
      address = ''12 Main St'', apartment = [], city = ''London'', postalCode = ''N1 9GU'',
      country = ''gb'', phone = []\<rparr>"

definition checkout_01 :: checkout_form where
  "checkout_01 = \<lparr>formData = form_01, errors = [], cf_isLoading = False, apiError = None,
      isSubmitted = False, isShippingSelected = False\<rparr>"

section \<open>Properties of the cart store\<close>

lemma foldl_quantity: "foldl (\<lambda>total item. total + quantity item) a its = a + sum_list (map quantity its)"
  by (induction its arbitrary: a) simp_all

text \<open>
  C8. The derived item count is the sum of the quantities of the line items of the
  snapshot, and it is 0 for a null cart and for a cart without an items list.
\<close>

theorem cartCount_sum:
  "cartCount None = 0
   \<and> cartCount (Some (c\<lparr>items := None\<rparr>)) = 0
   \<and> cartCount (Some (c\<lparr>items := Some its\<rparr>)) = sum_list (map quantity its)"
  by (simp add: cartCount_def foldl_quantity)

lemma removeStoredCartId_usable:
  "window_defined w \<Longrightarrow> \<not> storage_blocked w \<Longrightarrow>
   removeStoredCartId w = w\<lparr>localStorage := (localStorage w)(CART_ID_KEY := None)\<rparr>"
  by (simp add: removeStoredCartId_def isBrowser_def localStorage_removeItem_def)

lemma getStoredCartId_Some:
  "getStoredCartId w = Some sid \<Longrightarrow>
   window_defined w \<and> \<not> storage_blocked w \<and> localStorage w CART_ID_KEY = Some sid"
  by (auto simp: getStoredCartId_def isBrowser_def localStorage_getItem_def split: if_splits)

text \<open>
  C3. In a browser whose \<open>localStorage\<close> is usable, \<open>setCart\<close> of a cart with a
  non-empty identifier stores that identifier under the cart key. \<open>setCart(null)\<close> sets
  the snapshot to null and leaves \<open>localStorage\<close> as it was, and no call of \<open>setCart\<close>
  removes a persisted identifier. \<open>clearCart\<close> sets the snapshot to null and removes
  the persisted identifier.
\<close>

theorem setCart_persists_only_clearCart_removes:
  assumes "window_defined w" and "\<not> storage_blocked w"
  shows "(cart_id c \<noteq> [] \<longrightarrow>
           cart_atom (setCart (Some c) w) = Some c
           \<and> localStorage (setCart (Some c) w) CART_ID_KEY = Some (cart_id c))
    \<and> cart_atom (setCart None w) = None \<and> localStorage (setCart None w) = localStorage w
    \<and> (localStorage w CART_ID_KEY \<noteq> None \<longrightarrow> localStorage (setCart x w) CART_ID_KEY \<noteq> None)
    \<and> cart_atom (clearCart w) = None \<and> localStorage (clearCart w) CART_ID_KEY = None"
proof -
  have persist: "cart_id c \<noteq> [] \<longrightarrow>
           cart_atom (setCart (Some c) w) = Some c
           \<and> localStorage (setCart (Some c) w) CART_ID_KEY = Some (cart_id c)"
    using assms
    by (simp add: setCart_def setStoredCartId_def isBrowser_def localStorage_setItem_def)
  have set_null: "cart_atom (setCart None w) = None \<and> localStorage (setCart None w) = localStorage w"
    by (simp add: setCart_def)
  have keeps: "localStorage w CART_ID_KEY \<noteq> None \<longrightarrow> localStorage (setCart x w) CART_ID_KEY \<noteq> None"
    by (cases x)
       (auto simp: setCart_def Let_def setStoredCartId_def isBrowser_def localStorage_setItem_def emit_def)
  have clear: "cart_atom (clearCart w) = None \<and> localStorage (clearCart w) CART_ID_KEY = None"
    using assms by (simp add: clearCart_def removeStoredCartId_usable)
  from persist set_null keeps clear show ?thesis
    by blast
qed

theorem setCart_persists_only_clearCart_removes_witness:
  "window_defined page_01 \<and> \<not> storage_blocked page_01
   \<and> localStorage (setCart (Some (cart_01\<lparr>cart_id := ''cart_02''\<rparr>)) page_01) CART_ID_KEY = Some ''cart_02''
   \<and> localStorage (setCart None page_01) CART_ID_KEY = Some ''cart_01''
   \<and> localStorage (clearCart page_01) CART_ID_KEY = None"
proof -
  have env: "window_defined page_01" "\<not> storage_blocked page_01"
    by (simp_all add: page_01_def)
  have stored: "localStorage page_01 CART_ID_KEY = Some ''cart_01''"
    by (simp add: page_01_def)
  have new_id: "cart_id (cart_01\<lparr>cart_id := ''cart_02''\<rparr>) = ''cart_02''"
    by simp
  show ?thesis
    using env stored new_id
      setCart_persists_only_clearCart_removes [OF env, of "cart_01\<lparr>cart_id := ''cart_02''\<rparr>" None]
    by simp
qed

lemma time_truthy_iff: "time_truthy v \<longleftrightarrow> v \<noteq> None"
proof (cases v)
  case None
  then show ?thesis
    by (simp add: time_truthy_def truthy_def)
next
  case (Some t)
  have "Rep_time_stamp t \<noteq> []"
    using Rep_time_stamp [of t] by simp
  with Some show ?thesis
    by (simp add: time_truthy_def truthy_def)
qed

text \<open>
  C2. When the persisted identifier is read, is not empty, and its fetch returns a cart
  whose \<open>completed_at\<close> is not null, \<open>initializeCart\<close> returns null, leaves the cart
  store as it was and removes the persisted identifier.
\<close>

theorem initializeCart_completed_cart:
  assumes "getStoredCartId w = Some sid" and "sid \<noteq> []"
    and "fetchCart sid = Returns (Some c)" and "completed_at c \<noteq> None"
  shows "fst (initializeCart fetchCart w) = None
         \<and> cart_atom (snd (initializeCart fetchCart w)) = cart_atom w
         \<and> localStorage (snd (initializeCart fetchCart w)) CART_ID_KEY = None
         \<and> cartLoading (snd (initializeCart fetchCart w)) = False"
proof -
  from assms(1) have env: "window_defined w" "\<not> storage_blocked w"
    by (simp_all add: getStoredCartId_Some)
  then have rm: "removeStoredCartId (w\<lparr>cartLoading := True\<rparr>)
      = w\<lparr>cartLoading := True, localStorage := (localStorage w)(CART_ID_KEY := None)\<rparr>"
    by (simp add: removeStoredCartId_usable)
  from assms(4) have "time_truthy (completed_at c)"
    by (simp add: time_truthy_iff)
  with assms(1-3) rm show ?thesis
    by (simp add: initializeCart_def)
qed

theorem initializeCart_completed_cart_witness:
  "getStoredCartId page_01 = Some ''cart_01''
   \<and> completed_at (cart_01\<lparr>completed_at := Some (Abs_time_stamp ''2024-05-01T10:00:00Z'')\<rparr>) \<noteq> None
   \<and> fst (initializeCart
        (\<lambda>cartId. Returns (Some (cart_01\<lparr>completed_at := Some (Abs_time_stamp ''2024-05-01T10:00:00Z'')\<rparr>)))
        page_01) = None
   \<and> cart_atom (snd (initializeCart
        (\<lambda>cartId. Returns (Some (cart_01\<lparr>completed_at := Some (Abs_time_stamp ''2024-05-01T10:00:00Z'')\<rparr>)))
        page_01)) = None
   \<and> localStorage (snd (initializeCart
        (\<lambda>cartId. Returns (Some (cart_01\<lparr>completed_at := Some (Abs_time_stamp ''2024-05-01T10:00:00Z'')\<rparr>)))
        page_01)) CART_ID_KEY = None"
proof -
  have stored: "getStoredCartId page_01 = Some ''cart_01''"
    by (simp add: getStoredCartId_def isBrowser_def localStorage_getItem_def page_01_def)
  have completed:
    "completed_at (cart_01\<lparr>completed_at := Some (Abs_time_stamp ''2024-05-01T10:00:00Z'')\<rparr>) \<noteq> None"
    by simp
  have atom: "cart_atom page_01 = None"
    by (simp add: page_01_def)
  show ?thesis
    using stored completed atom
      initializeCart_completed_cart [where w = page_01 and sid = "''cart_01''"
        and fetchCart = "\<lambda>cartId. Returns (Some (cart_01\<lparr>completed_at :=
              Some (Abs_time_stamp ''2024-05-01T10:00:00Z'')\<rparr>))"
        and c = "cart_01\<lparr>completed_at := Some (Abs_time_stamp ''2024-05-01T10:00:00Z'')\<rparr>"]
    by simp
qed

text \<open>
  C6. When the persisted identifier is read, is not empty, and the supplied fetch function
  throws or returns no cart, \<open>initializeCart\<close> returns null, leaves the cart store as it
  was, removes the persisted identifier, and shows nothing to the user: the
  announcement is untouched and the only effect it may add is a console warning.
\<close>

theorem initializeCart_fetch_failure:
  assumes "getStoredCartId w = Some sid" and "sid \<noteq> []"
    and "fetchCart sid = Throws \<or> fetchCart sid = Returns None"
  shows "fst (initializeCart fetchCart w) = None
         \<and> cart_atom (snd (initializeCart fetchCart w)) = cart_atom w
         \<and> localStorage (snd (initializeCart fetchCart w)) CART_ID_KEY = None
         \<and> cartAnnouncement (snd (initializeCart fetchCart w)) = cartAnnouncement w
         \<and> (effects (snd (initializeCart fetchCart w)) = effects w
            \<or> effects (snd (initializeCart fetchCart w))
                = effects w @ [ConsoleWarn ''Failed to load cart from storage:''])"
proof -
  from assms(1) have env: "window_defined w" "\<not> storage_blocked w"
    by (simp_all add: getStoredCartId_Some)
  from assms(3) show ?thesis
  proof
    assume "fetchCart sid = Throws"
    then show ?thesis
      using assms(1,2) env
      by (simp add: initializeCart_def removeStoredCartId_usable emit_def)
  next
    assume "fetchCart sid = Returns None"
    then show ?thesis
      using assms(1,2) env
      by (simp add: initializeCart_def removeStoredCartId_usable)
  qed
qed

theorem initializeCart_fetch_failure_witness:
  "getStoredCartId page_01 = Some ''cart_01''
   \<and> initializeCart (\<lambda>cartId. Throws) page_01
      = (None, page_01\<lparr>localStorage := Map.empty,
                 effects := [ConsoleWarn ''Failed to load cart from storage:'']\<rparr>)
   \<and> fst (initializeCart (\<lambda>cartId. Throws) page_01) = None
   \<and> cart_atom (snd (initializeCart (\<lambda>cartId. Throws) page_01)) = None
   \<and> localStorage (snd (initializeCart (\<lambda>cartId. Throws) page_01)) CART_ID_KEY = None"
proof -
  have stored: "getStoredCartId page_01 = Some ''cart_01''"
    by (simp add: getStoredCartId_def isBrowser_def localStorage_getItem_def page_01_def)
  have run: "initializeCart (\<lambda>cartId. Throws) page_01
      = (None, page_01\<lparr>localStorage := Map.empty,
                 effects := [ConsoleWarn ''Failed to load cart from storage:'']\<rparr>)"
    by (simp add: initializeCart_def getStoredCartId_def isBrowser_def localStorage_getItem_def
        removeStoredCartId_def localStorage_removeItem_def emit_def page_01_def)
  have atom: "cart_atom page_01 = None"
    by (simp add: page_01_def)
  show ?thesis
    using stored run atom
      initializeCart_fetch_failure [where w = page_01 and sid = "''cart_01''"
        and fetchCart = "\<lambda>cartId. Throws"]
    by simp
qed

section \<open>Properties of the interaction handlers\<close>

lemma setCart_effects:
  "effects (setCart x w) = effects w
   \<or> effects (setCart x w) = effects w @ [ConsoleWarn ''Failed to save cart ID to localStorage'']"
  by (cases x)
     (auto simp: setCart_def Let_def setStoredCartId_def isBrowser_def localStorage_setItem_def emit_def)

lemma setCart_cart_atom: "cart_atom (setCart x w) = x"
  by (cases x)
     (auto simp: setCart_def Let_def setStoredCartId_def isBrowser_def localStorage_setItem_def emit_def)

lemma setCart_None: "setCart None w = w\<lparr>cart_atom := None\<rparr>"
  by (simp add: setCart_def)

text \<open>
  \<open>handlePlaceOrder\<close> never changes what \<open>localStorage\<close> holds under the cart key:
  the only key it removes is \<open>cart_id\<close>.
\<close>

lemma handlePlaceOrder_cart_key_kept:
  "localStorage (fst (handlePlaceOrder onComplete completeCart (w, st))) CART_ID_KEY
     = localStorage w CART_ID_KEY"
  by (auto simp: handlePlaceOrder_def Let_def place_order_finally_def place_order_failed_def
      setCart_None emit_def localStorage_removeItem_def CART_ID_KEY_def
      split: option.splits outcome.splits)

text \<open>
  C1. Placing the order on a page whose cart \<open>cart_01\<close> is persisted under the cart key,
  with a provider selected and a completion response of type \<open>order\<close>: the cart store
  is set to null and \<open>onComplete\<close> is invoked with the order, but the persisted cart
  identifier is still in \<open>localStorage\<close> afterwards.
\<close>

theorem handlePlaceOrder_order_keeps_persisted_id:
  "handlePlaceOrder (Some (\<lambda>order. Returns ())) (\<lambda>cartId. Returns order_response_01)
       (page_02, payment_01)
     = (page_02\<lparr>cart_atom := None,
                effects := [CompleteCart ''cart_01'',
                            OnCompleteOrder (Some \<lparr>order_id = ''order_01''\<rparr>)]\<rparr>,
        payment_01)
   \<and> getStoredCartId (fst (handlePlaceOrder (Some (\<lambda>order. Returns ()))
          (\<lambda>cartId. Returns order_response_01) (page_02, payment_01))) = Some ''cart_01''"
  by (simp add: handlePlaceOrder_def Let_def place_order_finally_def setCart_None emit_def
      localStorage_removeItem_def getStoredCartId_def isBrowser_def localStorage_getItem_def
      truthy_def page_02_def page_01_def payment_01_def order_response_01_def cart_01_def
      CART_ID_KEY_def)

text \<open>
  The rest of what the payment step does on placing the order. A response of type
  \<open>order\<close> sets the cart store to null and, when \<open>localStorage\<close> is usable, invokes
  \<open>onComplete\<close> with the order.
\<close>

lemma handlePlaceOrder_order_response:
  assumes "cart_atom w = Some c" and "cart_id c \<noteq> []" and "truthy (selectedProvider st)"
    and "completeCart (cart_id c) = Returns r" and "response_type r = ''order''"
    and "\<not> storage_blocked w"
  shows "cart_atom (fst (handlePlaceOrder (Some callback) completeCart (w, st))) = None
         \<and> (\<exists>rest. effects (fst (handlePlaceOrder (Some callback) completeCart (w, st)))
               = effects w @ [CompleteCart (cart_id c), OnCompleteOrder (response_order r)] @ rest)"
  using assms
  by (cases "callback (response_order r)")
     (simp_all add: handlePlaceOrder_def Let_def place_order_finally_def place_order_failed_def
        setCart_None emit_def localStorage_removeItem_def)

text \<open>
  Any other response type, and a failure of the completion call, set the inline error
  and leave the cart store, \<open>localStorage\<close> and the selected provider as they were.
\<close>

lemma handlePlaceOrder_not_completed:
  assumes "cart_atom w = Some c" and "cart_id c \<noteq> []" and "truthy (selectedProvider st)"
    and "completeCart (cart_id c) = Throws
         \<or> (\<exists>r. completeCart (cart_id c) = Returns r \<and> response_type r \<noteq> ''order'')"
  shows "cart_atom (fst (handlePlaceOrder onComplete completeCart (w, st))) = cart_atom w
         \<and> localStorage (fst (handlePlaceOrder onComplete completeCart (w, st))) = localStorage w
         \<and> selectedProvider (snd (handlePlaceOrder onComplete completeCart (w, st))) = selectedProvider st
         \<and> pf_error (snd (handlePlaceOrder onComplete completeCart (w, st))) \<noteq> None"
  using assms
  by (auto simp: handlePlaceOrder_def Let_def place_order_finally_def place_order_failed_def emit_def)

text \<open>
  C4. With a cart in the store, a quantity update to 0 for any line item first issues the
  line-item delete call for that item and issues no quantity-update call at all; and no
  call of \<open>handleUpdateQuantity\<close>, whatever the requested quantity, submits a
  quantity update with quantity 0.
\<close>

theorem handleUpdateQuantity_zero_deletes:
  assumes "cart_atom w = Some c" and "cart_id c \<noteq> []"
  shows "(\<exists>rest. effects (fst (handleUpdateQuantity removeLineItem getCart updateLineItem lineItemId 0 (w, st)))
                  = effects w @ RemoveLineItem (cart_id c) lineItemId # rest
                \<and> (\<forall>a b q. UpdateLineItem a b q \<notin> set rest))
       \<and> (\<exists>new. effects (fst (handleUpdateQuantity removeLineItem getCart updateLineItem lineItemId n (w, st)))
                  = effects w @ new
                \<and> (\<forall>a b. UpdateLineItem a b 0 \<notin> set new))"
proof -
  have zero: "\<exists>rest. effects (fst (handleUpdateQuantity removeLineItem getCart updateLineItem lineItemId 0 (w, st)))
                  = effects w @ RemoveLineItem (cart_id c) lineItemId # rest
                \<and> (\<forall>a b q. UpdateLineItem a b q \<notin> set rest)"
  proof (cases "removeLineItem (cart_id c) lineItemId")
    case Throws
    with assms show ?thesis
      by (simp add: handleUpdateQuantity_def Let_def update_item_finally_def
          update_item_failed_def emit_def)
  next
    case removed: (Returns u)
    show ?thesis
    proof (cases "getCart (cart_id c)")
      case Throws
      with assms removed show ?thesis
        by (simp add: handleUpdateQuantity_def Let_def update_item_finally_def
            update_item_failed_def emit_def)
    next
      case (Returns updatedCart)
      have "effects (setCart (Some updatedCart)
                (emit (GetCart (cart_id c)) (emit (RemoveLineItem (cart_id c) lineItemId) w)))
              = effects w @ [RemoveLineItem (cart_id c) lineItemId, GetCart (cart_id c)]
           \<or> effects (setCart (Some updatedCart)
                (emit (GetCart (cart_id c)) (emit (RemoveLineItem (cart_id c) lineItemId) w)))
              = effects w @ [RemoveLineItem (cart_id c) lineItemId, GetCart (cart_id c),
                             ConsoleWarn ''Failed to save cart ID to localStorage'']"
        using setCart_effects [of "Some updatedCart"
            "emit (GetCart (cart_id c)) (emit (RemoveLineItem (cart_id c) lineItemId) w)"]
        by (simp add: emit_def)
      with assms removed Returns show ?thesis
        by (auto simp: handleUpdateQuantity_def Let_def update_item_finally_def)
    qed
  qed
  have any: "\<exists>new. effects (fst (handleUpdateQuantity removeLineItem getCart updateLineItem lineItemId n (w, st)))
                  = effects w @ new
                \<and> (\<forall>a b. UpdateLineItem a b 0 \<notin> set new)"
  proof (cases "n = 0")
    case True
    with zero show ?thesis
      by auto
  next
    case False
    show ?thesis
    proof (cases "updateLineItem (cart_id c) lineItemId n")
      case Throws
      with assms False show ?thesis
        by (simp add: handleUpdateQuantity_def Let_def update_item_finally_def
            update_item_failed_def emit_def)
    next
      case (Returns updatedCart)
      have "effects (setCart (Some updatedCart) (emit (UpdateLineItem (cart_id c) lineItemId n) w))
              = effects w @ [UpdateLineItem (cart_id c) lineItemId n]
           \<or> effects (setCart (Some updatedCart) (emit (UpdateLineItem (cart_id c) lineItemId n) w))
              = effects w @ [UpdateLineItem (cart_id c) lineItemId n,
                             ConsoleWarn ''Failed to save cart ID to localStorage'']"
        using setCart_effects [of "Some updatedCart" "emit (UpdateLineItem (cart_id c) lineItemId n) w"]
        by (simp add: emit_def)
      with assms False Returns show ?thesis
        by (auto simp: handleUpdateQuantity_def Let_def update_item_finally_def)
    qed
  qed
  from zero any show ?thesis
    by blast
qed

theorem handleUpdateQuantity_zero_deletes_witness:
  "cart_atom page_02 = Some cart_01 \<and> cart_id cart_01 \<noteq> []
   \<and> effects (fst (handleRemoveItem (\<lambda>cartId lineItemId. Returns ())
         (\<lambda>cartId. Returns (cart_01\<lparr>items := Some []\<rparr>)) (\<lambda>cartId lineItemId q. Throws)
         ''item_a'' (page_02, island_01)))
       = [RemoveLineItem ''cart_01'' ''item_a'', GetCart ''cart_01'']
   \<and> (\<exists>rest. effects (fst (handleUpdateQuantity (\<lambda>cartId lineItemId. Returns ())
         (\<lambda>cartId. Returns (cart_01\<lparr>items := Some []\<rparr>)) (\<lambda>cartId lineItemId q. Throws)
         ''item_a'' 0 (page_02, island_01)))
       = RemoveLineItem ''cart_01'' ''item_a'' # rest)"
proof -
  have present: "cart_atom page_02 = Some cart_01" "cart_id cart_01 \<noteq> []"
    by (simp_all add: page_02_def cart_01_def)
  have none_before: "effects page_02 = []"
    by (simp add: page_02_def page_01_def)
  have run: "effects (fst (handleRemoveItem (\<lambda>cartId lineItemId. Returns ())
         (\<lambda>cartId. Returns (cart_01\<lparr>items := Some []\<rparr>)) (\<lambda>cartId lineItemId q. Throws)
         ''item_a'' (page_02, island_01)))
       = [RemoveLineItem ''cart_01'' ''item_a'', GetCart ''cart_01'']"
    by (simp add: handleRemoveItem_def handleUpdateQuantity_def Let_def update_item_finally_def
        setCart_def setStoredCartId_def isBrowser_def localStorage_setItem_def emit_def
        page_02_def page_01_def cart_01_def)
  have cid: "cart_id cart_01 = ''cart_01''"
    by (simp add: cart_01_def)
  show ?thesis
    using present none_before run cid
      handleUpdateQuantity_zero_deletes [OF present, of "\<lambda>cartId lineItemId. Returns ()"
        "\<lambda>cartId. Returns (cart_01\<lparr>items := Some []\<rparr>)" "\<lambda>cartId lineItemId q. Throws"
        "''item_a''" island_01 0]
    by auto
qed

text \<open>
  C7. With a cart in the store, selecting a shipping option submits it to the backend as
  the first effect, and submits it once: no second submission follows, whatever the
  outcome. When the submission succeeds the cart store holds the returned cart. When it
  fails the selection is null again, the error message is set, the cart store is as it
  was, and the only further effect is the console error.
\<close>

theorem handleSelectOption_submits_once:
  assumes "cart_atom w = Some c" and "cart_id c \<noteq> []"
  shows "(\<exists>rest. effects (fst (handleSelectOption onComplete addShippingMethod optionId (w, st)))
                  = effects w @ AddShippingMethod (cart_id c) optionId # rest
                \<and> (\<forall>a b. AddShippingMethod a b \<notin> set rest))
       \<and> (\<forall>updatedCart. addShippingMethod (cart_id c) optionId = Returns updatedCart \<longrightarrow>
            cart_atom (fst (handleSelectOption onComplete addShippingMethod optionId (w, st)))
              = Some updatedCart)
       \<and> (addShippingMethod (cart_id c) optionId = Throws \<longrightarrow>
            selectedOption (snd (handleSelectOption onComplete addShippingMethod optionId (w, st))) = None
            \<and> sm_error (snd (handleSelectOption onComplete addShippingMethod optionId (w, st)))
                = Some ''Failed to set shipping method. Please try again.''
            \<and> cart_atom (fst (handleSelectOption onComplete addShippingMethod optionId (w, st)))
                = cart_atom w
            \<and> effects (fst (handleSelectOption onComplete addShippingMethod optionId (w, st)))
                = effects w @ [AddShippingMethod (cart_id c) optionId,
                               ConsoleError ''Error setting shipping method:''])"
proof (cases "addShippingMethod (cart_id c) optionId")
  case Throws
  with assms show ?thesis
    by (simp add: handleSelectOption_def Let_def select_option_finally_def
        select_option_failed_def emit_def)
next
  case (Returns updatedCart)
  have eff: "effects (setCart (Some updatedCart) (emit (AddShippingMethod (cart_id c) optionId) w))
              = effects w @ [AddShippingMethod (cart_id c) optionId]
           \<or> effects (setCart (Some updatedCart) (emit (AddShippingMethod (cart_id c) optionId) w))
              = effects w @ [AddShippingMethod (cart_id c) optionId,
                             ConsoleWarn ''Failed to save cart ID to localStorage'']"
    using setCart_effects [of "Some updatedCart" "emit (AddShippingMethod (cart_id c) optionId) w"]
    by (simp add: emit_def)
  with assms Returns show ?thesis
    by (auto simp: handleSelectOption_def Let_def select_option_finally_def
        select_option_failed_def emit_def setCart_cart_atom split: option.splits outcome.splits)
qed

theorem handleSelectOption_submits_once_witness:
  "cart_atom page_02 = Some cart_01 \<and> cart_id cart_01 \<noteq> []
   \<and> handleSelectOption (Some (Returns ())) (\<lambda>cartId optionId. Throws) ''so_express''
        (page_02, selector_01\<lparr>selectedOption := Some ''so_standard''\<rparr>)
      = (page_02\<lparr>effects := [AddShippingMethod ''cart_01'' ''so_express'',
                              ConsoleError ''Error setting shipping method:'']\<rparr>,
         selector_01\<lparr>sm_error := Some ''Failed to set shipping method. Please try again.''\<rparr>)
   \<and> cart_atom (fst (handleSelectOption (Some (Returns ()))
        (\<lambda>cartId optionId. Returns (cart_01\<lparr>region_id := None\<rparr>)) ''so_express''
        (page_02, selector_01))) = Some (cart_01\<lparr>region_id := None\<rparr>)"
proof -
  have present: "cart_atom page_02 = Some cart_01" "cart_id cart_01 \<noteq> []"
    by (simp_all add: page_02_def cart_01_def)
  have failing: "handleSelectOption (Some (Returns ())) (\<lambda>cartId optionId. Throws) ''so_express''
        (page_02, selector_01\<lparr>selectedOption := Some ''so_standard''\<rparr>)
      = (page_02\<lparr>effects := [AddShippingMethod ''cart_01'' ''so_express'',
                              ConsoleError ''Error setting shipping method:'']\<rparr>,
         selector_01\<lparr>sm_error := Some ''Failed to set shipping method. Please try again.''\<rparr>)"
    by (simp add: handleSelectOption_def Let_def select_option_finally_def
        select_option_failed_def emit_def page_02_def page_01_def cart_01_def selector_01_def)
  show ?thesis
    using present failing
      handleSelectOption_submits_once [OF present, of "Some (Returns ())"
        "\<lambda>cartId optionId. Returns (cart_01\<lparr>region_id := None\<rparr>)" "''so_express''" selector_01]
    by simp
qed

section \<open>Properties of price formatting\<close>

lemma toUpperCase_Nil: "toUpperCase s = [] \<longleftrightarrow> s = []"
  by (simp add: toUpperCase_def)

text \<open>
  C10. \<open>formatPrice\<close> returns null exactly when the amount is undefined or null. For a
  numeric amount its result is the result of the currency formatter for the amount
  divided by 100, called with \<open>USD\<close> when the currency code is missing or empty and
  with the uppercased code otherwise.
\<close>

theorem formatPrice_null_iff_no_amount:
  "(formatPrice numberFormat amount currencyCode = Returns None \<longleftrightarrow> amount = None)
   \<and> formatPrice numberFormat (Some a) None
       = (case numberFormat ''USD'' (a / 100) of Throws \<Rightarrow> Throws | Returns t \<Rightarrow> Returns (Some t))
   \<and> formatPrice numberFormat (Some a) (Some [])
       = (case numberFormat ''USD'' (a / 100) of Throws \<Rightarrow> Throws | Returns t \<Rightarrow> Returns (Some t))
   \<and> (code \<noteq> [] \<longrightarrow>
        formatPrice numberFormat (Some a) (Some code)
          = (case numberFormat (toUpperCase code) (a / 100) of
               Throws \<Rightarrow> Throws | Returns t \<Rightarrow> Returns (Some t)))"
proof -
  have null_iff: "formatPrice numberFormat amount currencyCode = Returns None \<longleftrightarrow> amount = None"
    by (cases amount) (simp_all add: formatPrice_def Let_def split: outcome.splits)
  have missing: "formatPrice numberFormat (Some a) None
       = (case numberFormat ''USD'' (a / 100) of Throws \<Rightarrow> Throws | Returns t \<Rightarrow> Returns (Some t))"
    by (simp add: formatPrice_def)
  have empty: "formatPrice numberFormat (Some a) (Some [])
       = (case numberFormat ''USD'' (a / 100) of Throws \<Rightarrow> Throws | Returns t \<Rightarrow> Returns (Some t))"
    by (simp add: formatPrice_def toUpperCase_def)
  have given: "code \<noteq> [] \<longrightarrow>
        formatPrice numberFormat (Some a) (Some code)
          = (case numberFormat (toUpperCase code) (a / 100) of
               Throws \<Rightarrow> Throws | Returns t \<Rightarrow> Returns (Some t))"
    by (simp add: formatPrice_def toUpperCase_Nil)
  from null_iff missing empty given show ?thesis
    by blast
qed

theorem formatPrice_null_iff_no_amount_witness:
  "''eur'' \<noteq> []
   \<and> formatPrice (\<lambda>currency v. if v = 1999 / 100 then Returns (currency @ '' 19.99'') else Throws)
        (Some 1999) (Some ''eur'') = Returns (Some ''EUR 19.99'')
   \<and> formatPrice (\<lambda>currency v. if v = 1999 / 100 then Returns (currency @ '' 19.99'') else Throws)
        (Some 1999) None = Returns (Some ''USD 19.99'')"
proof -
  have given: "''eur'' \<noteq> []"
    by simp
  have upper: "toUpperCase ''eur'' = ''EUR''"
    by (simp add: toUpperCase_def)
  show ?thesis
    using given upper
      formatPrice_null_iff_no_amount [of
        "\<lambda>currency v. if v = 1999 / 100 then Returns (currency @ '' 19.99'') else Throws"
        "Some 1999" None 1999 "''eur''"]
    by simp
qed

section \<open>Properties of the address step\<close>

lemma trim_Nil_iff: "trim s = [] \<longleftrightarrow> (\<forall>c \<in> set s. is_space c)"
proof
  assume "trim s = []"
  then have all_rest: "\<forall>c \<in> set (dropWhile is_space s). is_space c"
    by (simp add: trim_def dropWhile_eq_Nil_conv)
  have "dropWhile is_space s = []"
  proof (rule ccontr)
    assume nonempty: "dropWhile is_space s \<noteq> []"
    then have "\<not> is_space (hd (dropWhile is_space s))"
      by (rule hd_dropWhile)
    moreover from nonempty have "hd (dropWhile is_space s) \<in> set (dropWhile is_space s)"
      by simp
    ultimately show False
      using all_rest by blast
  qed
  then show "\<forall>c \<in> set s. is_space c"
    by (simp add: dropWhile_eq_Nil_conv)
next
  assume "\<forall>c \<in> set s. is_space c"
  then have gone: "dropWhile is_space s = []"
    by (simp add: dropWhile_eq_Nil_conv)
  show "trim s = []"
    unfolding trim_def gone by simp
qed

lemma forces_at_not_empty: "forces_at r \<Longrightarrow> \<not> accepts_empty r"
  by (induction r) auto

lemma forces_at_after: "forces_at r \<Longrightarrow> c \<noteq> CHR ''@'' \<Longrightarrow> forces_at (after c r)"
  by (induction r) (auto simp: forces_at_not_empty)

lemma forces_at_test: "forces_at r \<Longrightarrow> regex_test r s \<Longrightarrow> CHR ''@'' \<in> set s"
proof (induction s arbitrary: r)
  case Nil
  then show ?case
    by (simp add: forces_at_not_empty)
next
  case (Cons c cs)
  show ?case
  proof (cases "c = CHR ''@''")
    case True
    then show ?thesis
      by simp
  next
    case False
    with Cons.prems have "forces_at (after c r)" and "regex_test (after c r) cs"
      by (simp_all add: forces_at_after)
    then have "CHR ''@'' \<in> set cs"
      by (rule Cons.IH)
    then show ?thesis
      by simp
  qed
qed

lemma email_pattern_not_blank:
  assumes "regex_test email_pattern e"
  shows "trim e \<noteq> []"
proof -
  have "forces_at email_pattern"
    by (simp add: email_pattern_def one_or_more_def)
  then have "CHR ''@'' \<in> set e"
    using assms by (rule forces_at_test)
  moreover have "\<not> is_space CHR ''@''"
    by (simp add: is_space_def)
  ultimately show ?thesis
    by (auto simp: trim_Nil_iff)
qed

lemma map_of_assign: "map_of (assign k v ps) = (map_of ps)(k \<mapsto> v)"
  by (induction ps) (auto simp: fun_eq_iff)

lemma assign_not_Nil: "assign k v ps \<noteq> []"
  by (cases ps) (auto split: if_splits)

lemma validateForm_email_required:
  assumes "trim (email (formData st)) = []"
  shows "\<not> fst (validateForm st)
         \<and> map_of (errors (snd (validateForm st))) ''email'' = Some ''Email is required''"
  using assms
  by (simp add: validateForm_def Let_def map_of_assign assign_not_Nil)

lemma validateForm_email_format:
  assumes "trim (email (formData st)) \<noteq> []"
    and "\<not> regex_test email_pattern (email (formData st))"
  shows "\<not> fst (validateForm st)
         \<and> map_of (errors (snd (validateForm st))) ''email'' = Some ''Please enter a valid email''"
  using assms
  by (simp add: validateForm_def Let_def map_of_assign assign_not_Nil)

lemma validateForm_all_present:
  assumes "regex_test email_pattern (email (formData st))"
    and "trim (firstName (formData st)) \<noteq> []" and "trim (lastName (formData st)) \<noteq> []"
    and "trim (address (formData st)) \<noteq> []" and "trim (city (formData st)) \<noteq> []"
    and "trim (postalCode (formData st)) \<noteq> []" and "trim (country (formData st)) \<noteq> []"
  shows "validateForm st = (True, st\<lparr>errors := []\<rparr>)"
  using assms email_pattern_not_blank [OF assms(1)]
  by (simp add: validateForm_def Let_def)

lemma handleSubmit_blocked:
  assumes "\<not> fst (validateForm (st\<lparr>apiError := None\<rparr>))"
  shows "fst (handleSubmit updateCart (w, st)) = w"
  using assms
  by (cases "validateForm (st\<lparr>apiError := None\<rparr>)") (simp add: handleSubmit_def)

lemma handleSubmit_with_cart:
  assumes "validateForm (st\<lparr>apiError := None\<rparr>) = (True, st1)"
    and "cart_atom w = Some c" and "cart_id c \<noteq> []"
  shows "\<exists>rest. effects (fst (handleSubmit updateCart (w, st)))
           = effects w @ UpdateCart (cart_id c) (update_body (formData st)) # rest"
proof (cases "updateCart (cart_id c) (update_body (formData st))")
  case Throws
  with assms show ?thesis
    by (simp add: handleSubmit_def Let_def emit_def)
next
  case (Returns updatedCart)
  have "effects (setCart (Some updatedCart)
            (emit (UpdateCart (cart_id c) (update_body (formData st))) w))
          = effects w @ [UpdateCart (cart_id c) (update_body (formData st))]
        \<or> effects (setCart (Some updatedCart)
            (emit (UpdateCart (cart_id c) (update_body (formData st))) w))
          = effects w @ [UpdateCart (cart_id c) (update_body (formData st)),
                         ConsoleWarn ''Failed to save cart ID to localStorage'']"
    using setCart_effects [of "Some updatedCart"
        "emit (UpdateCart (cart_id c) (update_body (formData st))) w"]
    by (simp add: emit_def)
  with assms Returns show ?thesis
    by (auto simp: handleSubmit_def Let_def)
qed

lemma handleSubmit_without_cart:
  assumes "validateForm (st\<lparr>apiError := None\<rparr>) = (True, st1)"
    and "cart_atom w = None \<or> (\<exists>c. cart_atom w = Some c \<and> cart_id c = [])"
  shows "handleSubmit updateCart (w, st)
           = (w, st1\<lparr>apiError := Some ''No cart found. Please add items to your cart first.''\<rparr>)"
  using assms
  by (auto simp: handleSubmit_def)

text \<open>
  C5 as stated fails in two ways. A first name that is not empty but holds only a space
  is reported as missing, so fields that are all non-empty do not make validation pass.
  And a valid form submitted while the cart store is empty makes no backend call: the
  handler shows that no cart was found.
\<close>

theorem checkout_validation_counterexample:
  "regex_test email_pattern (email (form_01\<lparr>firstName := '' ''\<rparr>))
   \<and> firstName (form_01\<lparr>firstName := '' ''\<rparr>) \<noteq> [] \<and> lastName (form_01\<lparr>firstName := '' ''\<rparr>) \<noteq> []
   \<and> address (form_01\<lparr>firstName := '' ''\<rparr>) \<noteq> [] \<and> city (form_01\<lparr>firstName := '' ''\<rparr>) \<noteq> []
   \<and> postalCode (form_01\<lparr>firstName := '' ''\<rparr>) \<noteq> [] \<and> country (form_01\<lparr>firstName := '' ''\<rparr>) \<noteq> []
   \<and> validateForm (checkout_01\<lparr>formData := form_01\<lparr>firstName := '' ''\<rparr>\<rparr>)
       = (False, checkout_01\<lparr>formData := form_01\<lparr>firstName := '' ''\<rparr>,
                              errors := [(''firstName'', ''First name is required'')]\<rparr>)
   \<and> validateForm checkout_01 = (True, checkout_01)
   \<and> handleSubmit (\<lambda>cartId body. Returns cart_01) (page_01, checkout_01)
       = (page_01,
          checkout_01\<lparr>apiError := Some ''No cart found. Please add items to your cart first.''\<rparr>)"
proof -
  have matches: "regex_test email_pattern ''ada@shop.io''"
    by (simp add: email_pattern_def one_or_more_def not_space_or_at_def is_space_def)
  have blank: "trim '' '' = []" and present: "trim ''Ada'' \<noteq> []" "trim ''Lovelace'' \<noteq> []"
    "trim ''12 Main St'' \<noteq> []" "trim ''London'' \<noteq> []" "trim ''N1 9GU'' \<noteq> []" "trim ''gb'' \<noteq> []"
    "trim ''ada@shop.io'' \<noteq> []"
    by (simp_all add: trim_def is_space_def)
  have bad: "validateForm (checkout_01\<lparr>formData := form_01\<lparr>firstName := '' ''\<rparr>\<rparr>)
       = (False, checkout_01\<lparr>formData := form_01\<lparr>firstName := '' ''\<rparr>,
                              errors := [(''firstName'', ''First name is required'')]\<rparr>)"
    using matches blank present
    by (simp add: validateForm_def Let_def checkout_01_def form_01_def)
  have good: "validateForm checkout_01 = (True, checkout_01)"
    using matches present
    by (simp add: validateForm_def Let_def checkout_01_def form_01_def)
  have no_cart: "handleSubmit (\<lambda>cartId body. Returns cart_01) (page_01, checkout_01)
       = (page_01,
          checkout_01\<lparr>apiError := Some ''No cart found. Please add items to your cart first.''\<rparr>)"
    using matches present
    by (simp add: handleSubmit_def validateForm_def Let_def checkout_01_def form_01_def page_01_def)
  from matches bad good no_cart show ?thesis
    by (simp add: form_01_def)
qed

text \<open>
  C5, amended. An email that is empty or only white space gives the error
  \<open>Email is required\<close>. An email that is not only white space and does not match the
  pattern gives the format error. Any validation error blocks the submission: no effect
  is produced. When the email matches the pattern and first name, last name, address,
  city, postal code and country each hold more than white space, validation gives no
  error; the submission then calls the backend update for the cart in the store, and
  when the store holds no cart with an identifier it makes no call and reports that no
  cart was found.
\<close>

theorem checkout_validation:
  "(trim (email (formData st)) = [] \<longrightarrow>
      \<not> fst (validateForm st)
      \<and> map_of (errors (snd (validateForm st))) ''email'' = Some ''Email is required'')
   \<and> (trim (email (formData st)) \<noteq> [] \<and> \<not> regex_test email_pattern (email (formData st)) \<longrightarrow>
      \<not> fst (validateForm st)
      \<and> map_of (errors (snd (validateForm st))) ''email'' = Some ''Please enter a valid email'')
   \<and> (\<not> fst (validateForm (st\<lparr>apiError := None\<rparr>)) \<longrightarrow> fst (handleSubmit updateCart (w, st)) = w)
   \<and> (regex_test email_pattern (email (formData st))
       \<and> trim (firstName (formData st)) \<noteq> [] \<and> trim (lastName (formData st)) \<noteq> []
       \<and> trim (address (formData st)) \<noteq> [] \<and> trim (city (formData st)) \<noteq> []
       \<and> trim (postalCode (formData st)) \<noteq> [] \<and> trim (country (formData st)) \<noteq> [] \<longrightarrow>
      fst (validateForm st) \<and> errors (snd (validateForm st)) = []
      \<and> (\<forall>c. cart_atom w = Some c \<and> cart_id c \<noteq> [] \<longrightarrow>
            (\<exists>rest. effects (fst (handleSubmit updateCart (w, st)))
                = effects w @ UpdateCart (cart_id c) (update_body (formData st)) # rest))
      \<and> (cart_atom w = None \<or> (\<exists>c. cart_atom w = Some c \<and> cart_id c = []) \<longrightarrow>
            effects (fst (handleSubmit updateCart (w, st))) = effects w
            \<and> apiError (snd (handleSubmit updateCart (w, st)))
                = Some ''No cart found. Please add items to your cart first.''))"
proof (intro conjI impI)
  assume "trim (email (formData st)) = []"
  then show "\<not> fst (validateForm st)"
    and "map_of (errors (snd (validateForm st))) ''email'' = Some ''Email is required''"
    by (simp_all add: validateForm_email_required)
next
  assume "trim (email (formData st)) \<noteq> [] \<and> \<not> regex_test email_pattern (email (formData st))"
  then show "\<not> fst (validateForm st)"
    and "map_of (errors (snd (validateForm st))) ''email'' = Some ''Please enter a valid email''"
    by (simp_all add: validateForm_email_format)
next
  assume "\<not> fst (validateForm (st\<lparr>apiError := None\<rparr>))"
  then show "fst (handleSubmit updateCart (w, st)) = w"
    by (rule handleSubmit_blocked)
next
  assume ok: "regex_test email_pattern (email (formData st))
       \<and> trim (firstName (formData st)) \<noteq> [] \<and> trim (lastName (formData st)) \<noteq> []
       \<and> trim (address (formData st)) \<noteq> [] \<and> trim (city (formData st)) \<noteq> []
       \<and> trim (postalCode (formData st)) \<noteq> [] \<and> trim (country (formData st)) \<noteq> []"
  then have v: "validateForm st = (True, st\<lparr>errors := []\<rparr>)"
    by (simp add: validateForm_all_present)
  from ok have v': "validateForm (st\<lparr>apiError := None\<rparr>) = (True, st\<lparr>apiError := None, errors := []\<rparr>)"
    by (simp add: validateForm_all_present)
  from v show "fst (validateForm st)" and "errors (snd (validateForm st)) = []"
    by simp_all
  show "\<forall>c. cart_atom w = Some c \<and> cart_id c \<noteq> [] \<longrightarrow>
            (\<exists>rest. effects (fst (handleSubmit updateCart (w, st)))
                = effects w @ UpdateCart (cart_id c) (update_body (formData st)) # rest)"
    using handleSubmit_with_cart [OF v'] by blast
  assume "cart_atom w = None \<or> (\<exists>c. cart_atom w = Some c \<and> cart_id c = [])"
  then have "handleSubmit updateCart (w, st)
      = (w, st\<lparr>apiError := None, errors := []\<rparr>
              \<lparr>apiError := Some ''No cart found. Please add items to your cart first.''\<rparr>)"
    by (rule handleSubmit_without_cart [OF v'])
  then show "effects (fst (handleSubmit updateCart (w, st))) = effects w"
    and "apiError (snd (handleSubmit updateCart (w, st)))
                = Some ''No cart found. Please add items to your cart first.''"
    by simp_all
qed

theorem checkout_validation_witness:
  "regex_test email_pattern (email (formData checkout_01))
   \<and> trim (email (formData (checkout_01\<lparr>formData := form_01\<lparr>email := ''  ''\<rparr>\<rparr>))) = []
   \<and> map_of (errors (snd (validateForm (checkout_01\<lparr>formData := form_01\<lparr>email := ''  ''\<rparr>\<rparr>)))) ''email''
       = Some ''Email is required''
   \<and> \<not> regex_test email_pattern ''foo''
   \<and> map_of (errors (snd (validateForm (checkout_01\<lparr>formData := form_01\<lparr>email := ''foo''\<rparr>\<rparr>)))) ''email''
       = Some ''Please enter a valid email''
   \<and> errors (snd (validateForm checkout_01)) = []
   \<and> (\<exists>rest. effects (fst (handleSubmit (\<lambda>cartId body. Returns cart_01) (page_02, checkout_01)))
         = UpdateCart ''cart_01'' (update_body form_01) # rest)"
proof -
  have matches: "regex_test email_pattern ''ada@shop.io''"
    by (simp add: email_pattern_def one_or_more_def not_space_or_at_def is_space_def)
  have foo: "\<not> regex_test email_pattern ''foo''"
    by (simp add: email_pattern_def one_or_more_def not_space_or_at_def is_space_def)
  have trims: "trim ''  '' = []" "trim ''foo'' \<noteq> []" "trim ''Ada'' \<noteq> []" "trim ''Lovelace'' \<noteq> []"
    "trim ''12 Main St'' \<noteq> []" "trim ''London'' \<noteq> []" "trim ''N1 9GU'' \<noteq> []" "trim ''gb'' \<noteq> []"
    by (simp_all add: trim_def is_space_def)
  have fields: "formData checkout_01 = form_01" "email form_01 = ''ada@shop.io''"
    "firstName form_01 = ''Ada''" "lastName form_01 = ''Lovelace''" "address form_01 = ''12 Main St''"
    "city form_01 = ''London''" "postalCode form_01 = ''N1 9GU''" "country form_01 = ''gb''"
    by (simp_all add: checkout_01_def form_01_def)
  have store: "cart_atom page_02 = Some cart_01" "cart_id cart_01 = ''cart_01''" "effects page_02 = []"
    by (simp_all add: page_02_def page_01_def cart_01_def)
  have empty_case: "map_of (errors (snd (validateForm (checkout_01\<lparr>formData := form_01\<lparr>email := ''  ''\<rparr>\<rparr>)))) ''email''
       = Some ''Email is required''"
    using trims checkout_validation [of "checkout_01\<lparr>formData := form_01\<lparr>email := ''  ''\<rparr>\<rparr>"]
    by simp
  have format_case: "map_of (errors (snd (validateForm (checkout_01\<lparr>formData := form_01\<lparr>email := ''foo''\<rparr>\<rparr>)))) ''email''
       = Some ''Please enter a valid email''"
    using trims foo checkout_validation [of "checkout_01\<lparr>formData := form_01\<lparr>email := ''foo''\<rparr>\<rparr>"]
    by simp
  have valid_case: "errors (snd (validateForm checkout_01)) = []
      \<and> (\<exists>rest. effects (fst (handleSubmit (\<lambda>cartId body. Returns cart_01) (page_02, checkout_01)))
         = UpdateCart ''cart_01'' (update_body form_01) # rest)"
    using matches trims fields store
      checkout_validation [of checkout_01 "\<lambda>cartId body. Returns cart_01" page_02]
    by simp
  from matches foo trims fields empty_case format_case valid_case show ?thesis
    by simp
qed

section \<open>Properties of the search debounce\<close>






text \<open>
  The browser keeps every timer that was set and not cleared. Had the effect run twice
  with no cleanup between, both timers would run and both queries would be issued.
\<close>

lemma timers_not_cleared_both_run:
  "issued (search_run listProducts
      (debounce_effect ((debounce_effect
          \<lparr>query = ''shirt'', results = [], sr_isLoading = False, sr_isOpen = False,
           clock = 0, timers = [], next_timer = 0, effect_timer = None, issued = []\<rparr>)
        \<lparr>query := ''shirts''\<rparr>))
      [Elapse 300, TimerTask, TimerTask])
   = [''shirt'', ''shirts'']"
  by (simp add: search_run_def debounce_effect_def setTimeout_def timer_callback_def Let_def
      trim_def is_space_def split: outcome.splits)












end
